theory Spec2Isabelle
  imports Main
begin

section \<open>Values on the wire\<close>

text \<open>
  Room and participant identifiers arrive as arguments of socket.io events. The server
  never checks them, so an argument may be missing or \<open>null\<close>. An argument that the
  sender left off the end of the event reads as \<open>Undefined\<close> in the handler; an
  \<open>undefined\<close> that the sender passed before another argument travels as \<open>null\<close>
  and reads as \<open>Null\<close>. The primitive values modelled here are the ones for which the
  equality of a JavaScript \<open>Map\<close> key or \<open>Set\<close> member (SameValueZero) is
  structural equality.
\<close>

datatype jsval = Undefined | Null | Bool bool | Str string

datatype error = TypeError

type_synonym sid = string

subsection \<open>JavaScript \<open>Set\<close> and \<open>Map\<close>, in insertion order\<close>

text \<open>
  A \<open>Set\<close> is the list of its members in insertion order (\<open>Array.from\<close> reads it in
  that order), a \<open>Map\<close> the list of its entries in insertion order (\<open>entries()\<close> reads
  it in that order). \<open>map_set\<close> overwrites the value of a present key in place and appends
  an absent one, as \<open>Map.prototype.set\<close> does.
\<close>

definition set_has :: "'a list \<Rightarrow> 'a \<Rightarrow> bool" where
  "set_has xs x = (x \<in> set xs)"

definition set_add :: "'a list \<Rightarrow> 'a \<Rightarrow> 'a list" where
  "set_add xs x = (if x \<in> set xs then xs else xs @ [x])"

definition set_delete :: "'a list \<Rightarrow> 'a \<Rightarrow> 'a list" where
  "set_delete xs x = removeAll x xs"

definition map_has :: "('k \<times> 'v) list \<Rightarrow> 'k \<Rightarrow> bool" where
  "map_has m k = (map_of m k \<noteq> None)"

definition map_get :: "('k \<times> 'v) list \<Rightarrow> 'k \<Rightarrow> 'v option" where
  "map_get m k = map_of m k"

fun map_set :: "('k \<times> 'v) list \<Rightarrow> 'k \<Rightarrow> 'v \<Rightarrow> ('k \<times> 'v) list" where
  "map_set [] k v = [(k, v)]"
| "map_set (p # ps) k v = (if fst p = k then (k, v) # ps else p # map_set ps k v)"

definition map_delete :: "('k \<times> 'v) list \<Rightarrow> 'k \<Rightarrow> ('k \<times> 'v) list" where
  "map_delete m k = filter (\<lambda>p. fst p \<noteq> k) m"

section \<open>The signaling server\<close>

text \<open>
  The payload of an \<open>offer\<close>, \<open>answer\<close> or \<open>ice-candidate\<close> event is an object; the
  handler reads its properties \<open>room\<close>, \<open>from\<close> and the one named after the event
  (\<open>offer\<close>, \<open>answer\<close>, \<open>candidate\<close>: here \<open>d_payload\<close>). A property that the sender
  left out reads as \<open>Undefined\<close>. The property \<open>to\<close> is carried by the clients'
  messages; it is part of the record although no handler reads it. When the payload
  itself is \<open>undefined\<close> or \<open>null\<close> (\<open>None\<close> below) the property access throws.
\<close>

record sigdata =
  d_room :: jsval
  d_payload :: jsval
  d_from :: jsval
  d_to :: jsval

record talkdata =
  t_room :: jsval
  t_userId :: jsval
  t_isTalking :: jsval

datatype event =
    Connection sid
  | JoinRoom sid jsval jsval
  | Offer sid "sigdata option"
  | Answer sid "sigdata option"
  | IceCandidate sid "sigdata option"
  | UserTalking sid "talkdata option"
  | LeaveRoom sid jsval jsval
  | Disconnect sid

text \<open>What the server emits: the event name with its argument.\<close>

datatype out_msg =
    UserConnected jsval
  | RoomUsers "jsval list"
  | OfferMsg jsval jsval
  | AnswerMsg jsval jsval
  | IceCandidateMsg jsval jsval
  | UserTalkingMsg jsval jsval
  | UserDisconnected jsval

text \<open>
  The state of the server process: \<open>activeRooms\<close> is the global \<open>Map\<close> from room to
  the \<open>Set\<close> of user ids; \<open>adapter\<close> is socket.io's own table of which sockets are
  joined to which room; \<open>sent\<close> is the log of emissions, each with the set of sockets
  it is delivered to.

  socket.io is used through four calls. \<open>socket.join(r)\<close> and \<open>socket.leave(r)\<close>
  add the socket to and remove it from room \<open>r\<close> of the adapter.
  A socket joins the room named by its own id when it connects and has left every room
  when its \<open>disconnect\<close> listeners run. \<open>socket.to(r).emit(m)\<close> delivers \<open>m\<close> to
  the sockets joined to \<open>r\<close>, except the sockets joined to the room named by the
  socket's own id: socket.io 4 excludes that room, not the socket. The sender is in it
  from its connection on, and alone in it, unless a handler has called \<open>socket.leave\<close>
  or \<open>socket.join\<close> with a socket id as the room. \<open>socket.emit(m)\<close> delivers \<open>m\<close>
  to the socket itself.
\<close>

record server =
  activeRooms :: "(jsval \<times> jsval list) list"
  adapter :: "jsval \<Rightarrow> sid set"
  sent :: "(sid set \<times> out_msg) list"

definition server0 :: server where
  "server0 = \<lparr>activeRooms = [], adapter = (\<lambda>r. {}), sent = []\<rparr>"

definition socket_join :: "server \<Rightarrow> sid \<Rightarrow> jsval \<Rightarrow> server" where
  "socket_join s sock r = s\<lparr>adapter := (adapter s)(r := insert sock (adapter s r))\<rparr>"

definition socket_leave :: "server \<Rightarrow> sid \<Rightarrow> jsval \<Rightarrow> server" where
  "socket_leave s sock r = s\<lparr>adapter := (adapter s)(r := adapter s r - {sock})\<rparr>"

definition socket_leave_all :: "server \<Rightarrow> sid \<Rightarrow> server" where
  "socket_leave_all s sock = s\<lparr>adapter := (\<lambda>r. adapter s r - {sock})\<rparr>"

definition socket_to_emit :: "server \<Rightarrow> sid \<Rightarrow> jsval \<Rightarrow> out_msg \<Rightarrow> server" where
  "socket_to_emit s sock r m =
     s\<lparr>sent := sent s @ [(adapter s r - adapter s (Str sock), m)]\<rparr>"

definition socket_emit :: "server \<Rightarrow> sid \<Rightarrow> out_msg \<Rightarrow> server" where
  "socket_emit s sock m = s\<lparr>sent := sent s @ [({sock}, m)]\<rparr>"

text \<open>The expression \<open>activeRooms.get(roomId) || []\<close> of the join handler.\<close>

definition membersOf :: "(jsval \<times> jsval list) list \<Rightarrow> jsval \<Rightarrow> jsval list" where
  "membersOf rooms r = (case map_get rooms r of None \<Rightarrow> [] | Some us \<Rightarrow> us)"

text \<open>
  \<open>io.on('connection')\<close>: the handlers below are registered for the new socket.
\<close>

definition on_connection :: "server \<Rightarrow> sid \<Rightarrow> server" where
  "on_connection s sock = socket_join s sock (Str sock)"

text \<open>
  \<open>join-room\<close>: an absent room gets a fresh empty \<open>Set\<close>; the user id is added to the
  room's \<open>Set\<close> (in place, the entry keeps its position in the \<open>Map\<close>); the socket
  joins the socket.io room; \<open>user-connected\<close> goes to the room, \<open>room-users\<close> to the
  socket.
\<close>

definition on_join_room :: "server \<Rightarrow> sid \<Rightarrow> jsval \<Rightarrow> jsval \<Rightarrow> server" where
  "on_join_room s sock roomId userId =
     (let rooms1 = (if \<not> map_has (activeRooms s) roomId
                    then map_set (activeRooms s) roomId [] else activeRooms s);
          rooms2 = map_set rooms1 roomId (set_add (membersOf rooms1 roomId) userId);
          s1 = socket_join (s\<lparr>activeRooms := rooms2\<rparr>) sock roomId;
          s2 = socket_to_emit s1 sock roomId (UserConnected userId);
          users = membersOf (activeRooms s2) roomId
      in socket_emit s2 sock (RoomUsers users))"

definition on_offer :: "server \<Rightarrow> sid \<Rightarrow> sigdata option \<Rightarrow> error + server" where
  "on_offer s sock data =
     (case data of
        None \<Rightarrow> Inl TypeError
      | Some d \<Rightarrow> Inr (socket_to_emit s sock (d_room d) (OfferMsg (d_payload d) (d_from d))))"

definition on_answer :: "server \<Rightarrow> sid \<Rightarrow> sigdata option \<Rightarrow> error + server" where
  "on_answer s sock data =
     (case data of
        None \<Rightarrow> Inl TypeError
      | Some d \<Rightarrow> Inr (socket_to_emit s sock (d_room d) (AnswerMsg (d_payload d) (d_from d))))"

definition on_ice_candidate :: "server \<Rightarrow> sid \<Rightarrow> sigdata option \<Rightarrow> error + server" where
  "on_ice_candidate s sock data =
     (case data of
        None \<Rightarrow> Inl TypeError
      | Some d \<Rightarrow>
          Inr (socket_to_emit s sock (d_room d) (IceCandidateMsg (d_payload d) (d_from d))))"

definition on_user_talking :: "server \<Rightarrow> sid \<Rightarrow> talkdata option \<Rightarrow> error + server" where
  "on_user_talking s sock data =
     (case data of
        None \<Rightarrow> Inl TypeError
      | Some d \<Rightarrow>
          Inr (socket_to_emit s sock (t_room d) (UserTalkingMsg (t_userId d) (t_isTalking d))))"

text \<open>
  \<open>leave-room\<close>: the user id is deleted from the room's \<open>Set\<close> and a room left empty
  is deleted from the \<open>Map\<close>; both only when the room is present.
\<close>

definition on_leave_room :: "server \<Rightarrow> sid \<Rightarrow> jsval \<Rightarrow> jsval \<Rightarrow> server" where
  "on_leave_room s sock roomId userId =
     (let rooms' =
            (if map_has (activeRooms s) roomId
             then (let us = set_delete (membersOf (activeRooms s) roomId) userId;
                       rooms1 = map_set (activeRooms s) roomId us
                   in if length us = 0 then map_delete rooms1 roomId else rooms1)
             else activeRooms s);
          s1 = socket_leave (s\<lparr>activeRooms := rooms'\<rparr>) sock roomId
      in socket_to_emit s1 sock roomId (UserDisconnected userId))"

text \<open>
  \<open>disconnect\<close>: the loop over \<open>activeRooms.entries()\<close>. It looks for the socket's id
  (\<open>socket.id\<close>) among the members of each room. \<open>cleanup\<close> walks the entries in order
  and returns the entries that remain with the emissions made on the way (each the
  \<open>socket.to(roomId).emit\<close> of above, on the adapter \<open>ad\<close>); deleting the entry under
  the cursor does not disturb the iteration over the rest.
\<close>

fun cleanup :: "(jsval \<Rightarrow> sid set) \<Rightarrow> sid \<Rightarrow> (jsval \<times> jsval list) list \<Rightarrow>
    (jsval \<times> jsval list) list \<times> (sid set \<times> out_msg) list" where
  "cleanup ad sock [] = ([], [])"
| "cleanup ad sock ((roomId, users) # rest) =
     (let (rest', out) = cleanup ad sock rest
      in if set_has users (Str sock)
         then (let users' = set_delete users (Str sock);
                   m = (ad roomId - ad (Str sock), UserDisconnected (Str sock))
               in if length users' = 0 then (rest', m # out)
                  else ((roomId, users') # rest', m # out))
         else ((roomId, users) # rest', out))"

definition on_disconnect :: "server \<Rightarrow> sid \<Rightarrow> server" where
  "on_disconnect s sock =
     (let s1 = socket_leave_all s sock;
          (rooms', out) = cleanup (adapter s1) sock (activeRooms s1)
      in s1\<lparr>activeRooms := rooms', sent := sent s1 @ out\<rparr>)"

text \<open>
  One event, and a sequence of events. An exception thrown by a handler is not caught
  anywhere in the server: the run ends there.
\<close>

fun step :: "server \<Rightarrow> event \<Rightarrow> error + server" where
  "step s (Connection sock) = Inr (on_connection s sock)"
| "step s (JoinRoom sock roomId userId) = Inr (on_join_room s sock roomId userId)"
| "step s (Offer sock data) = on_offer s sock data"
| "step s (Answer sock data) = on_answer s sock data"
| "step s (IceCandidate sock data) = on_ice_candidate s sock data"
| "step s (UserTalking sock data) = on_user_talking s sock data"
| "step s (LeaveRoom sock roomId userId) = Inr (on_leave_room s sock roomId userId)"
| "step s (Disconnect sock) = Inr (on_disconnect s sock)"

fun run :: "server \<Rightarrow> event list \<Rightarrow> error + server" where
  "run s [] = Inr s"
| "run s (e # es) = (case step s e of Inl err \<Rightarrow> Inl err | Inr s' \<Rightarrow> run s' es)"

text \<open>
  The registry is well formed when no entry holds an empty \<open>Set\<close>.
\<close>

definition rooms_ok :: "(jsval \<times> jsval list) list \<Rightarrow> bool" where
  "rooms_ok rooms = ([] \<notin> snd ` set rooms)"

subsection \<open>Observing a run\<close>

text \<open>
  The registry after a sequence of events from the empty server, and the emissions made
  by one event handled after such a sequence.
\<close>

definition registry_after :: "event list \<Rightarrow> error + (jsval \<times> jsval list) list" where
  "registry_after evs = map_sum id activeRooms (run server0 evs)"

definition delivered :: "event list \<Rightarrow> event \<Rightarrow> error + (sid set \<times> out_msg) list" where
  "delivered evs e =
     (case run server0 evs of
        Inl x \<Rightarrow> Inl x
      | Inr s \<Rightarrow> (case step s e of
                   Inl x \<Rightarrow> Inl x
                 | Inr s' \<Rightarrow> Inr (drop (length (sent s)) (sent s'))))"

text \<open>
  Two states used as examples. In \<open>one_in_lobby\<close> socket \<open>s1\<close> has joined \<open>lobby\<close>
  as \<open>p1\<close> and socket \<open>s2\<close> has connected; in \<open>three_in_lobby\<close> the sockets
  \<open>s1\<close>, \<open>s2\<close>, \<open>s3\<close> have joined \<open>lobby\<close> as \<open>u1\<close>, \<open>u2\<close>, \<open>u3\<close>.
\<close>

definition one_in_lobby :: server where
  "one_in_lobby =
     on_connection
       (on_join_room (on_connection server0 ''s1'') ''s1'' (Str ''lobby'') (Str ''p1'')) ''s2''"

definition three_in_lobby :: server where
  "three_in_lobby =
     on_join_room
       (on_join_room
          (on_join_room
             (on_connection (on_connection (on_connection server0 ''s1'') ''s2'') ''s3'')
             ''s1'' (Str ''lobby'') (Str ''u1''))
          ''s2'' (Str ''lobby'') (Str ''u2''))
       ''s3'' (Str ''lobby'') (Str ''u3'')"

subsection \<open>The registry as the spec describes it\<close>

text \<open>
  The member set of room \<open>r\<close> as the spec words it: the participants joined to \<open>r\<close>
  and not left since, with set semantics. It is compared with the registry of the code
  below.
\<close>

fun is_join_leave :: "event \<Rightarrow> bool" where
  "is_join_leave (JoinRoom sock r u) = True"
| "is_join_leave (LeaveRoom sock r u) = True"
| "is_join_leave e = False"

fun spec_step :: "jsval \<Rightarrow> jsval set \<Rightarrow> event \<Rightarrow> jsval set" where
  "spec_step r S (JoinRoom sock r' u) = (if r' = r then insert u S else S)"
| "spec_step r S (LeaveRoom sock r' u) = (if r' = r then S - {u} else S)"
| "spec_step r S e = S"

definition joined_not_left :: "jsval \<Rightarrow> event list \<Rightarrow> jsval set" where
  "joined_not_left r evs = foldl (spec_step r) {} evs"

section \<open>The client\<close>

text \<open>
  The state of a \<open>WalkieTalkieApp\<close>: its fields, the log of what it emits on the socket
  (\<open>emitted\<close>), the messages it has shown with \<open>showError\<close> (\<open>errors\<close>) and the text
  of the status line (\<open>status\<close>). The rest of the page (user list, sections, the talk
  button) is rendering and is left out; the page is taken to hold the elements the
  script looks up.

  The local stream is the list of its audio tracks, each by its \<open>enabled\<close> flag. An
  \<open>RTCPeerConnection\<close> is known by the order of its construction (\<open>pc_id\<close>, counted
  by \<open>created\<close>), the number of local tracks added to it and the descriptions set on it.
  \<open>peerConnections\<close> is the object used as a dictionary: its own properties by key.
  Participant ids are taken not to name a member of \<open>Object.prototype\<close>.
\<close>

type_synonym stream = "bool list"

record peer =
  pc_id :: nat
  pc_tracks :: nat
  pc_local :: "jsval option"
  pc_remote :: "jsval option"

datatype client_msg =
    EmitJoinRoom string string
  | EmitOffer "string option" jsval jsval
  | EmitAnswer "string option" jsval jsval
  | EmitUserTalking "string option" string bool

record client =
  localStream :: "stream option"
  peerConnections :: "string \<Rightarrow> peer option"
  created :: nat
  roomId :: "string option"
  userId :: string
  username :: string
  emitted :: "client_msg list"
  errors :: "string list"
  status :: string

definition client0 :: "string \<Rightarrow> client" where
  "client0 uid = \<lparr>localStream = None, peerConnections = (\<lambda>k. None), created = 0, roomId = None,
     userId = uid, username = [], emitted = [], errors = [], status = []\<rparr>"

text \<open>
  \<open>if (this.roomId)\<close>: \<open>null\<close> and the empty string are falsy.
\<close>

definition truthy :: "string option \<Rightarrow> bool" where
  "truthy v = (case v of None \<Rightarrow> False | Some s \<Rightarrow> s \<noteq> [])"

text \<open>
  \<open>String.prototype.trim\<close> on the characters a \<open>char\<close> holds (code points 0 to 255):
  tab, line feed, vertical tab, form feed, carriage return, space and no-break space
  are the white space among them.
\<close>

definition is_space :: "char \<Rightarrow> bool" where
  "is_space c = (of_char c \<in> {9, 10, 11, 12, 13, 32, 160 :: nat})"

definition trim :: "string \<Rightarrow> string" where
  "trim s = rev (dropWhile is_space (rev (dropWhile is_space s)))"

text \<open>
  \<open>this.peerConnections[userId]\<close> converts the value to a property key.
\<close>

fun to_key :: "jsval \<Rightarrow> string" where
  "to_key Undefined = ''undefined''"
| "to_key Null = ''null''"
| "to_key (Bool b) = (if b then ''true'' else ''false'')"
| "to_key (Str s) = s"

definition emit :: "client \<Rightarrow> client_msg \<Rightarrow> client" where
  "emit c m = c\<lparr>emitted := emitted c @ [m]\<rparr>"

definition showError :: "client \<Rightarrow> string \<Rightarrow> client" where
  "showError c message = c\<lparr>errors := errors c @ [message]\<rparr>"

definition updateStatus :: "client \<Rightarrow> string \<Rightarrow> client" where
  "updateStatus c message = c\<lparr>status := message\<rparr>"

text \<open>
  What the browser and the WebRTC stack decide is an argument of the handler that asks:
  \<^item> \<open>media\<close>: the outcome of \<open>getUserMedia\<close>, the tracks of the stream, or \<open>None\<close>
    when it rejects;
  \<^item> \<open>rtc n\<close>: the outcome of \<open>createOffer\<close> followed by \<open>setLocalDescription\<close> on
    the connection constructed \<open>n\<close>-th, the offer, or \<open>None\<close> when either rejects
    (each connection is asked once, when it is created);
  \<^item> \<open>outcome\<close>: how far \<open>handleOffer\<close> gets on the connection.

  An \<open>async\<close> method is modelled with its continuations run to the end before the next
  event is handled: what it reads after an \<open>await\<close> (\<open>this.roomId\<close>) is what the
  handler saw, and the emissions of one handler are logged in the order of the calls.
  An exception caught by a \<open>try\<close> is logged on the console only; the branch returns the
  state as it is.

  \<open>getMicrophoneAccess\<close> returns the message of the \<open>Error\<close> it throws on the left.
\<close>

definition getMicrophoneAccess :: "stream option \<Rightarrow> client \<Rightarrow> string + client" where
  "getMicrophoneAccess media c =
     (case media of
        None \<Rightarrow> Inl ''Microphone access denied. Please allow microphone permissions.''
      | Some tracks \<Rightarrow> Inr (c\<lparr>localStream := Some (map (\<lambda>enabled. False) tracks)\<rparr>))"

text \<open>
  \<open>joinRoom\<close> reads the two input fields. The room id and the user name are stored
  before anything else is done.
\<close>

definition joinRoom :: "string \<Rightarrow> string \<Rightarrow> stream option \<Rightarrow> client \<Rightarrow> client" where
  "joinRoom roomInput usernameInput media c =
     (let c1 = c\<lparr>roomId := Some (trim roomInput),
                  username := (if trim usernameInput = [] then ''Anonymous''
                               else trim usernameInput)\<rparr>
      in if \<not> truthy (roomId c1) then showError c1 ''Please enter a room name''
         else (case getMicrophoneAccess media c1 of
                 Inl message \<Rightarrow> showError c1 (''Failed to join room: '' @ message)
               | Inr c2 \<Rightarrow>
                   updateStatus (emit c2 (EmitJoinRoom (trim roomInput) (userId c2)))
                     (''Joined room: '' @ trim roomInput)))"

text \<open>
  \<open>createOffer\<close>: the connection is looked up first; a missing one makes the call on
  \<open>undefined\<close> throw inside the \<open>try\<close>.
\<close>

definition createOffer :: "(nat \<Rightarrow> jsval option) \<Rightarrow> client \<Rightarrow> jsval \<Rightarrow> client" where
  "createOffer rtc c uid =
     (case peerConnections c (to_key uid) of
        None \<Rightarrow> c
      | Some pc \<Rightarrow>
          (case rtc (pc_id pc) of
             None \<Rightarrow> c
           | Some offer \<Rightarrow>
               emit (c\<lparr>peerConnections :=
                          (peerConnections c)(to_key uid \<mapsto> pc\<lparr>pc_local := Some offer\<rparr>)\<rparr>)
                 (EmitOffer (roomId c) offer uid)))"

text \<open>
  \<open>createPeerConnection\<close> returns the connection with the state after the call. The
  call of \<open>createOffer\<close> at its end is unconditional; the source comments it
  ``Create offer if we're the second person to join''.
\<close>

definition createPeerConnection ::
    "(nat \<Rightarrow> jsval option) \<Rightarrow> client \<Rightarrow> jsval \<Rightarrow> peer \<times> client" where
  "createPeerConnection rtc c uid =
     (case peerConnections c (to_key uid) of
        Some pc \<Rightarrow> (pc, c)
      | None \<Rightarrow>
          (let pc = \<lparr>pc_id = created c,
                     pc_tracks = (case localStream c of None \<Rightarrow> 0 | Some tracks \<Rightarrow> length tracks),
                     pc_local = None, pc_remote = None\<rparr>;
               c1 = c\<lparr>peerConnections := (peerConnections c)(to_key uid \<mapsto> pc),
                      created := Suc (created c)\<rparr>;
               c2 = createOffer rtc c1 uid
           in (case peerConnections c2 (to_key uid) of None \<Rightarrow> pc | Some pc' \<Rightarrow> pc', c2)))"

text \<open>The handlers of \<open>user-connected\<close> and \<open>room-users\<close>.\<close>

definition on_user_connected :: "(nat \<Rightarrow> jsval option) \<Rightarrow> client \<Rightarrow> jsval \<Rightarrow> client" where
  "on_user_connected rtc c uid = snd (createPeerConnection rtc c uid)"

definition on_room_users :: "(nat \<Rightarrow> jsval option) \<Rightarrow> client \<Rightarrow> jsval list \<Rightarrow> client" where
  "on_room_users rtc c users =
     foldl (\<lambda>c' uid. if uid \<noteq> Str (userId c') then snd (createPeerConnection rtc c' uid) else c')
       c users"

text \<open>
  \<open>handleOffer\<close>: \<open>setRemoteDescription\<close> may reject (\<open>RemoteDescriptionRejected\<close>),
  or \<open>createAnswer\<close> or \<open>setLocalDescription\<close> after it (\<open>AnswerFailed\<close>), or all
  three resolve with an answer.
\<close>

datatype answer_outcome = RemoteDescriptionRejected | AnswerFailed | Answered jsval

definition handleOffer ::
    "(nat \<Rightarrow> jsval option) \<Rightarrow> answer_outcome \<Rightarrow> client \<Rightarrow> jsval \<Rightarrow> jsval \<Rightarrow> client" where
  "handleOffer rtc outcome c offer fromUserId =
     (let (pc, c1) = createPeerConnection rtc c fromUserId
      in case outcome of
           RemoteDescriptionRejected \<Rightarrow> c1
         | AnswerFailed \<Rightarrow>
             c1\<lparr>peerConnections :=
                  (peerConnections c1)(to_key fromUserId \<mapsto> pc\<lparr>pc_remote := Some offer\<rparr>)\<rparr>
         | Answered answer \<Rightarrow>
             emit (c1\<lparr>peerConnections :=
                        (peerConnections c1)(to_key fromUserId \<mapsto>
                           pc\<lparr>pc_remote := Some offer, pc_local := Some answer\<rparr>)\<rparr>)
               (EmitAnswer (roomId c1) answer fromUserId))"

definition startTalking :: "client \<Rightarrow> client" where
  "startTalking c =
     (case localStream c of
        None \<Rightarrow> c
      | Some tracks \<Rightarrow>
          (let c1 = c\<lparr>localStream := Some (map (\<lambda>enabled. True) tracks)\<rparr>
           in if truthy (roomId c1) then emit c1 (EmitUserTalking (roomId c1) (userId c1) True)
              else c1))"

definition stopTalking :: "client \<Rightarrow> client" where
  "stopTalking c =
     (case localStream c of
        None \<Rightarrow> c
      | Some tracks \<Rightarrow>
          (let c1 = c\<lparr>localStream := Some (map (\<lambda>enabled. False) tracks)\<rparr>
           in if truthy (roomId c1) then emit c1 (EmitUserTalking (roomId c1) (userId c1) False)
              else c1))"

text \<open>The negotiation offers among the messages emitted.\<close>

fun is_offer :: "client_msg \<Rightarrow> bool" where
  "is_offer (EmitOffer r p t) = True"
| "is_offer m = False"

section \<open>Facts about the registry operations\<close>

lemma map_of_map_set: "map_of (map_set m k v) = (map_of m)(k \<mapsto> v)"
  by (induction m) (auto simp: fun_eq_iff)

lemma map_of_map_delete: "map_of (map_delete m k) = (map_of m)(k := None)"
  by (induction m) (auto simp: map_delete_def fun_eq_iff)

lemma map_set_twice: "map_set (map_set m k v) k w = map_set m k w"
  by (induction m) auto

lemma set_map_set: "set (map_set m k v) \<subseteq> insert (k, v) (set m)"
  by (induction m) auto

lemma set_map_delete_map_set: "set (map_delete (map_set m k v) k) \<subseteq> set m"
  by (induction m) (auto simp: map_delete_def)

lemma set_add_nonempty: "set_add xs x \<noteq> []"
  by (simp add: set_add_def) auto

lemma rooms_ok_map_set: "rooms_ok m \<Longrightarrow> v \<noteq> [] \<Longrightarrow> rooms_ok (map_set m k v)"
  using set_map_set [of m k v] by (auto simp: rooms_ok_def)

lemma rooms_ok_join: "rooms_ok (activeRooms s) \<Longrightarrow> rooms_ok (activeRooms (on_join_room s sock r u))"
  by (simp add: on_join_room_def Let_def socket_emit_def socket_to_emit_def socket_join_def
      map_set_twice rooms_ok_map_set set_add_nonempty)

lemma rooms_ok_leave: "rooms_ok (activeRooms s) \<Longrightarrow> rooms_ok (activeRooms (on_leave_room s sock r u))"
proof -
  assume ok: "rooms_ok (activeRooms s)"
  define us where "us = set_delete (membersOf (activeRooms s) r) u"
  have "rooms_ok (if length us = 0 then map_delete (map_set (activeRooms s) r us) r
                  else map_set (activeRooms s) r us)"
  proof (cases "us = []")
    case True
    with ok set_map_delete_map_set [of "activeRooms s" r "[]"] show ?thesis
      by (auto simp: rooms_ok_def)
  next
    case False
    with ok show ?thesis by (simp add: rooms_ok_map_set)
  qed
  then show ?thesis using ok unfolding us_def
    by (auto simp: on_leave_room_def Let_def socket_to_emit_def socket_leave_def
        split: if_splits)
qed

lemma rooms_ok_cleanup: "rooms_ok rooms \<Longrightarrow> rooms_ok (fst (cleanup ad sock rooms))"
  by (induction rooms) (auto simp: rooms_ok_def Let_def split: prod.splits if_splits)

lemma rooms_ok_disconnect: "rooms_ok (activeRooms s) \<Longrightarrow> rooms_ok (activeRooms (on_disconnect s sock))"
  using rooms_ok_cleanup [of "activeRooms s" "adapter (socket_leave_all s sock)" sock]
  by (auto simp: on_disconnect_def Let_def socket_leave_all_def split: prod.splits)

lemma rooms_ok_step: "rooms_ok (activeRooms s) \<Longrightarrow> step s e = Inr s' \<Longrightarrow> rooms_ok (activeRooms s')"
  by (cases e)
     (auto simp: rooms_ok_join rooms_ok_leave rooms_ok_disconnect on_connection_def socket_join_def
        on_offer_def on_answer_def on_ice_candidate_def on_user_talking_def socket_to_emit_def
        split: option.splits)

lemma rooms_ok_run: "rooms_ok (activeRooms s) \<Longrightarrow> run s evs = Inr s' \<Longrightarrow> rooms_ok (activeRooms s')"
proof (induction evs arbitrary: s)
  case Nil
  then show ?case by simp
next
  case (Cons e evs)
  then show ?case by (auto split: sum.splits dest: rooms_ok_step)
qed

lemma rooms_ok_members: "rooms_ok rooms \<Longrightarrow> (membersOf rooms r = [] \<longleftrightarrow> map_get rooms r = None)"
  by (auto simp: membersOf_def map_get_def rooms_ok_def split: option.splits dest!: map_of_SomeD)
     (metis snd_conv image_eqI)

lemmas handler_defs = on_join_room_def on_leave_room_def Let_def socket_join_def socket_leave_def
  socket_to_emit_def socket_emit_def

lemma members_map_set:
  "membersOf (map_set m k v) r = (if r = k then v else membersOf m r)"
  by (simp add: membersOf_def map_get_def map_of_map_set)

lemma members_map_delete:
  "membersOf (map_delete m k) r = (if r = k then [] else membersOf m r)"
  by (simp add: membersOf_def map_get_def map_of_map_delete)

lemma members_absent: "\<not> map_has m k \<Longrightarrow> membersOf m k = []"
  by (simp add: membersOf_def map_get_def map_has_def)

lemma members_join:
  "membersOf (activeRooms (on_join_room s sock r' u)) r =
     (if r = r' then set_add (membersOf (activeRooms s) r') u else membersOf (activeRooms s) r)"
  by (simp add: handler_defs members_map_set members_absent)

lemma members_leave:
  "set (membersOf (activeRooms (on_leave_room s sock r' u)) r) =
     (if r = r' then set (membersOf (activeRooms s) r') - {u} else set (membersOf (activeRooms s) r))"
proof -
  have e: "removeAll u xs = [] \<Longrightarrow> set xs - {u} = {}" for xs :: "jsval list"
    using set_removeAll [of u xs] by simp
  show ?thesis
    by (auto simp: handler_defs members_map_set members_map_delete members_absent set_delete_def
        dest: e)
qed

lemma set_set_add: "set (set_add xs x) = insert x (set xs)"
  by (auto simp: set_add_def)

lemma step_spec:
  "is_join_leave e \<Longrightarrow> \<exists>s'. step s e = Inr s' \<and>
     set (membersOf (activeRooms s') r) = spec_step r (set (membersOf (activeRooms s) r)) e"
  by (cases e) (auto simp: members_join members_leave set_set_add)

lemma run_spec:
  "list_all is_join_leave evs \<Longrightarrow> \<exists>s'. run s evs = Inr s' \<and>
     set (membersOf (activeRooms s') r) = foldl (spec_step r) (set (membersOf (activeRooms s) r)) evs"
proof (induction evs arbitrary: s)
  case Nil
  then show ?case by simp
next
  case (Cons e evs)
  from Cons.prems obtain s1 where s1: "step s e = Inr s1"
    "set (membersOf (activeRooms s1) r) = spec_step r (set (membersOf (activeRooms s) r)) e"
    using step_spec [of e s r] by auto
  from Cons.prems have "list_all is_join_leave evs" by simp
  from Cons.IH [OF this, of s1] s1 show ?case by simp
qed

lemma map_set_same: "map_of m k = Some v \<Longrightarrow> map_set m k v = m"
  by (induction m) (auto split: if_splits)

lemma join_present_unchanged:
  "u \<in> set (membersOf (activeRooms s) r) \<Longrightarrow> activeRooms (on_join_room s sock r u) = activeRooms s"
  by (auto simp: handler_defs membersOf_def map_get_def map_has_def set_add_def map_set_same
      split: option.splits)

lemma leave_absent_unchanged:
  "rooms_ok (activeRooms s) \<Longrightarrow> u \<notin> set (membersOf (activeRooms s) r) \<Longrightarrow>
     activeRooms (on_leave_room s sock r u) = activeRooms s"
  using rooms_ok_members [of "activeRooms s" r]
  by (auto simp: handler_defs membersOf_def map_get_def map_has_def set_delete_def map_set_same
      split: option.splits)

lemmas eval_defs = registry_after_def delivered_def server0_def on_connection_def
  handler_defs on_disconnect_def on_offer_def on_answer_def on_ice_candidate_def
  map_has_def membersOf_def map_get_def set_add_def set_delete_def map_delete_def set_has_def
  socket_leave_all_def

lemma join_registry:
  "activeRooms (on_join_room s sock r u) =
     map_set (activeRooms s) r (set_add (membersOf (activeRooms s) r) u)"
  by (simp add: handler_defs map_set_twice members_map_set members_absent)

lemma join_adapter:
  "adapter (on_join_room s sock r u) = (adapter s)(r := insert sock (adapter s r))"
  by (simp add: handler_defs)

lemma join_sent:
  "sent (on_join_room s sock r u) =
     sent s @ [(if r = Str sock then {} else insert sock (adapter s r) - adapter s (Str sock),
                UserConnected u),
               ({sock}, RoomUsers (set_add (membersOf (activeRooms s) r) u))]"
  by (simp add: handler_defs members_map_set members_absent)

lemma join_sent_own_room:
  "adapter s (Str sock) = {sock} \<Longrightarrow>
     (if r = Str sock then {} else insert sock (adapter s r) - adapter s (Str sock))
       = adapter s r - {sock}"
  by auto

section \<open>Server: relayed negotiation messages\<close>

text \<open>
  Claim C1, as the spec states it: an offer, answer or ice-candidate carrying a target
  \<open>to\<close> is delivered to the session of that participant only, with a \<open>from\<close> field
  that the server sets to the sender's participant id. Three sessions \<open>s1\<close>, \<open>s2\<close>,
  \<open>s3\<close> have joined \<open>lobby\<close> as \<open>u1\<close>, \<open>u2\<close>, \<open>u3\<close>; \<open>s1\<close> sends an offer
  addressed to \<open>u2\<close>, built as the client builds it (no \<open>from\<close> property). The server
  delivers it to \<open>s2\<close> and to \<open>s3\<close>, and its \<open>from\<close> is \<open>undefined\<close>, not \<open>u1\<close>.
\<close>

theorem relay_unicast_counterexample:
  "delivered [Connection ''s1'', Connection ''s2'', Connection ''s3'',
      JoinRoom ''s1'' (Str ''lobby'') (Str ''u1''), JoinRoom ''s2'' (Str ''lobby'') (Str ''u2''),
      JoinRoom ''s3'' (Str ''lobby'') (Str ''u3'')]
     (Offer ''s1'' (Some \<lparr>d_room = Str ''lobby'', d_payload = Str ''sdp'', d_from = Undefined,
        d_to = Str ''u2''\<rparr>))
   = Inr [({''s2'', ''s3''}, OfferMsg (Str ''sdp'') Undefined)] \<and>
   delivered [Connection ''s1'', Connection ''s2'', Connection ''s3'',
      JoinRoom ''s1'' (Str ''lobby'') (Str ''u1''), JoinRoom ''s2'' (Str ''lobby'') (Str ''u2''),
      JoinRoom ''s3'' (Str ''lobby'') (Str ''u3'')]
     (Offer ''s1'' (Some \<lparr>d_room = Str ''lobby'', d_payload = Str ''sdp'', d_from = Undefined,
        d_to = Str ''u2''\<rparr>))
   \<noteq> Inr [({''s2''}, OfferMsg (Str ''sdp'') (Str ''u1''))]"
  by (auto simp: eval_defs)

text \<open>
  Claim C1, amended. An offer, answer or ice-candidate is delivered to the sessions joined
  to the message's \<open>room\<close>, except the sessions joined to the room named by the sender's
  socket id, whatever the \<open>to\<close> property holds; the message delivered carries the
  payload and the \<open>from\<close> property of the incoming message as they came, and nothing
  else changes in the server. When the room named by the sender's socket id holds the
  sender alone, the message goes to every session joined to the message's room but the
  sender's.
\<close>

theorem relay_goes_to_room:
  "on_offer s sock (Some \<lparr>d_room = r, d_payload = p, d_from = f, d_to = t\<rparr>)
     = Inr (s\<lparr>sent := sent s @ [(adapter s r - adapter s (Str sock), OfferMsg p f)]\<rparr>) \<and>
   on_answer s sock (Some \<lparr>d_room = r, d_payload = p, d_from = f, d_to = t\<rparr>)
     = Inr (s\<lparr>sent := sent s @ [(adapter s r - adapter s (Str sock), AnswerMsg p f)]\<rparr>) \<and>
   on_ice_candidate s sock (Some \<lparr>d_room = r, d_payload = p, d_from = f, d_to = t\<rparr>)
     = Inr (s\<lparr>sent := sent s @
              [(adapter s r - adapter s (Str sock), IceCandidateMsg p f)]\<rparr>) \<and>
   (adapter s (Str sock) = {sock} \<longrightarrow>
      on_offer s sock (Some \<lparr>d_room = r, d_payload = p, d_from = f, d_to = t\<rparr>)
        = Inr (s\<lparr>sent := sent s @ [(adapter s r - {sock}, OfferMsg p f)]\<rparr>) \<and>
      on_answer s sock (Some \<lparr>d_room = r, d_payload = p, d_from = f, d_to = t\<rparr>)
        = Inr (s\<lparr>sent := sent s @ [(adapter s r - {sock}, AnswerMsg p f)]\<rparr>) \<and>
      on_ice_candidate s sock (Some \<lparr>d_room = r, d_payload = p, d_from = f, d_to = t\<rparr>)
        = Inr (s\<lparr>sent := sent s @ [(adapter s r - {sock}, IceCandidateMsg p f)]\<rparr>))"
  by (simp add: on_offer_def on_answer_def on_ice_candidate_def socket_to_emit_def)

theorem relay_goes_to_room_witness:
  "adapter three_in_lobby (Str ''s1'') = {''s1''} \<and>
   adapter three_in_lobby (Str ''lobby'') - {''s1''} = {''s2'', ''s3''} \<and>
   on_offer three_in_lobby ''s1''
     (Some \<lparr>d_room = Str ''lobby'', d_payload = Str ''sdp'', d_from = Undefined,
        d_to = Str ''u2''\<rparr>)
     = Inr (three_in_lobby\<lparr>sent := sent three_in_lobby @
         [(adapter three_in_lobby (Str ''lobby'') - {''s1''},
           OfferMsg (Str ''sdp'') Undefined)]\<rparr>)"
proof -
  have h: "adapter three_in_lobby (Str ''s1'') = {''s1''}"
    by (simp add: three_in_lobby_def join_adapter on_connection_def socket_join_def server0_def)
  have a: "adapter three_in_lobby (Str ''lobby'') - {''s1''} = {''s2'', ''s3''}"
    by (auto simp: three_in_lobby_def join_adapter on_connection_def socket_join_def server0_def)
  from relay_goes_to_room [of three_in_lobby "''s1''" "Str ''lobby''" "Str ''sdp''" Undefined
      "Str ''u2''"] h a
  show ?thesis by blast
qed

section \<open>Server: disconnect\<close>

text \<open>
  Claim C2 on the scenario of the spec: \<open>p1\<close> joins \<open>lobby\<close>, \<open>p2\<close> joins, \<open>p1\<close>
  leaves, \<open>p2\<close>'s session disconnects without a leave. The disconnect handler looks for
  the socket id \<open>s2\<close> among the members, which are user ids: \<open>p2\<close> stays in the
  registry and the \<open>lobby\<close> entry with it.
\<close>

theorem scenario_disconnect_keeps_room:
  "registry_after [Connection ''s1'', JoinRoom ''s1'' (Str ''lobby'') (Str ''p1''),
     Connection ''s2'', JoinRoom ''s2'' (Str ''lobby'') (Str ''p2''),
     LeaveRoom ''s1'' (Str ''lobby'') (Str ''p1''), Disconnect ''s2'']
   = Inr [(Str ''lobby'', [Str ''p2''])]"
  by (simp add: eval_defs)

section \<open>Server: the registry never holds an empty room\<close>

text \<open>
  Claim C3. From the empty registry, after any sequence of events that the server handles
  without an exception (joins, leaves, disconnects, and relayed messages among them), the
  member list of a room is empty exactly when the registry has no entry for the room: no
  entry with an empty member set exists.
\<close>

theorem registry_no_empty_room:
  "run server0 evs = Inr s \<Longrightarrow>
     (membersOf (activeRooms s) r = [] \<longleftrightarrow> map_get (activeRooms s) r = None)"
  using rooms_ok_run [of server0 evs s] rooms_ok_members [of "activeRooms s" r]
  by (simp add: rooms_ok_def server0_def)

theorem registry_no_empty_room_witness:
  "run server0 [JoinRoom ''s1'' (Str ''lobby'') (Str ''p1'')]
     = Inr (on_join_room server0 ''s1'' (Str ''lobby'') (Str ''p1'')) \<and>
   (membersOf (activeRooms (on_join_room server0 ''s1'' (Str ''lobby'') (Str ''p1'')))
      (Str ''lobby'') = []) =
   (map_get (activeRooms (on_join_room server0 ''s1'' (Str ''lobby'') (Str ''p1'')))
      (Str ''lobby'') = None) \<and>
   membersOf (activeRooms (on_join_room server0 ''s1'' (Str ''lobby'') (Str ''p1'')))
      (Str ''lobby'') = [Str ''p1'']"
proof -
  have r: "run server0 [JoinRoom ''s1'' (Str ''lobby'') (Str ''p1'')]
     = Inr (on_join_room server0 ''s1'' (Str ''lobby'') (Str ''p1''))"
    by simp
  have m: "membersOf (activeRooms (on_join_room server0 ''s1'' (Str ''lobby'') (Str ''p1'')))
      (Str ''lobby'') = [Str ''p1'']"
    by (simp add: on_join_room_def server0_def Let_def map_has_def membersOf_def map_get_def
        set_add_def socket_join_def socket_to_emit_def socket_emit_def)
  from r m registry_no_empty_room [OF r, of "Str ''lobby''"] show ?thesis
    by simp
qed

section \<open>Server: joining a room\<close>

text \<open>
  Claim C4, as the spec states it: \<open>user-connected\<close> goes to every member of the room
  other than the joiner. Socket \<open>s1\<close> has sent \<open>leave-room\<close> with its own socket id as
  the room and then joins \<open>lobby\<close>: it receives the \<open>user-connected\<close> of its own join.
  Socket \<open>s2\<close> has joined the room named by the id of \<open>s1\<close>, and \<open>s2\<close> and \<open>s3\<close>
  are in \<open>lobby\<close>, when \<open>s1\<close> joins \<open>lobby\<close>: the member \<open>s2\<close> is not notified.
\<close>

theorem join_broadcast_counterexample:
  "delivered [Connection ''s1'', LeaveRoom ''s1'' (Str ''s1'') (Str ''p1'')]
     (JoinRoom ''s1'' (Str ''lobby'') (Str ''p1''))
   = Inr [({''s1''}, UserConnected (Str ''p1'')), ({''s1''}, RoomUsers [Str ''p1''])] \<and>
   delivered [Connection ''s1'', Connection ''s2'', Connection ''s3'',
      JoinRoom ''s2'' (Str ''s1'') (Str ''p2''), JoinRoom ''s2'' (Str ''lobby'') (Str ''p2''),
      JoinRoom ''s3'' (Str ''lobby'') (Str ''p3'')]
     (JoinRoom ''s1'' (Str ''lobby'') (Str ''p1''))
   = Inr [({''s3''}, UserConnected (Str ''p1'')),
          ({''s1''}, RoomUsers [Str ''p2'', Str ''p3'', Str ''p1''])]"
  by (auto simp: eval_defs)

text \<open>
  Claim C4, amended. Handling \<open>join-room(r, u)\<close> from socket \<open>sock\<close> adds \<open>u\<close> to the
  members of \<open>r\<close> in the registry, joins \<open>sock\<close> to \<open>r\<close>, and makes exactly two
  emissions. The first is \<open>user-connected(u)\<close>, to the sockets joined to \<open>r\<close> except
  those joined to the room named by the id of \<open>sock\<close> (to nobody when \<open>r\<close> is that
  room). The second is \<open>room-users\<close>, to \<open>sock\<close> alone, with the members of \<open>r\<close> as
  the registry holds them after the add; \<open>u\<close> is among them. When the room named by the
  id of \<open>sock\<close> holds \<open>sock\<close> alone, \<open>user-connected(u)\<close> goes to every socket joined
  to \<open>r\<close> other than \<open>sock\<close>.
\<close>

theorem join_room_notifications:
  "sent (on_join_room s sock r u) =
     sent s @ [(if r = Str sock then {} else insert sock (adapter s r) - adapter s (Str sock),
                UserConnected u),
               ({sock}, RoomUsers (set_add (membersOf (activeRooms s) r) u))] \<and>
   activeRooms (on_join_room s sock r u) =
     map_set (activeRooms s) r (set_add (membersOf (activeRooms s) r) u) \<and>
   adapter (on_join_room s sock r u) = (adapter s)(r := insert sock (adapter s r)) \<and>
   membersOf (activeRooms (on_join_room s sock r u)) r
     = set_add (membersOf (activeRooms s) r) u \<and>
   set (set_add (membersOf (activeRooms s) r) u) = insert u (set (membersOf (activeRooms s) r)) \<and>
   (adapter s (Str sock) = {sock} \<longrightarrow>
      sent (on_join_room s sock r u) =
        sent s @ [(adapter s r - {sock}, UserConnected u),
                  ({sock}, RoomUsers (set_add (membersOf (activeRooms s) r) u))])"
proof -
  have a: "membersOf (activeRooms (on_join_room s sock r u)) r
     = set_add (membersOf (activeRooms s) r) u"
    by (simp add: members_join)
  have b: "adapter s (Str sock) = {sock} \<longrightarrow>
      sent (on_join_room s sock r u) =
        sent s @ [(adapter s r - {sock}, UserConnected u),
                  ({sock}, RoomUsers (set_add (membersOf (activeRooms s) r) u))]"
    using join_sent_own_room [of s sock r] by (simp add: join_sent)
  from a b show ?thesis
    using join_sent [of s sock r u] join_registry [of s sock r u] join_adapter [of s sock r u]
      set_set_add [of "membersOf (activeRooms s) r" u]
    by blast
qed

theorem join_room_notifications_witness:
  "adapter one_in_lobby (Str ''s2'') = {''s2''} \<and>
   adapter one_in_lobby (Str ''lobby'') - {''s2''} = {''s1''} \<and>
   set_add (membersOf (activeRooms one_in_lobby) (Str ''lobby'')) (Str ''p2'')
     = [Str ''p1'', Str ''p2''] \<and>
   sent (on_join_room one_in_lobby ''s2'' (Str ''lobby'') (Str ''p2'')) =
     sent one_in_lobby @
       [(adapter one_in_lobby (Str ''lobby'') - {''s2''}, UserConnected (Str ''p2'')),
        ({''s2''}, RoomUsers (set_add (membersOf (activeRooms one_in_lobby) (Str ''lobby''))
           (Str ''p2'')))]"
proof -
  have h: "adapter one_in_lobby (Str ''s2'') = {''s2''}"
    by (simp add: one_in_lobby_def join_adapter on_connection_def socket_join_def server0_def)
  have a: "adapter one_in_lobby (Str ''lobby'') - {''s2''} = {''s1''}"
    by (auto simp: one_in_lobby_def join_adapter on_connection_def socket_join_def server0_def)
  have m: "set_add (membersOf (activeRooms one_in_lobby) (Str ''lobby'')) (Str ''p2'')
     = [Str ''p1'', Str ''p2'']"
    by (simp add: one_in_lobby_def eval_defs)
  from join_room_notifications [of one_in_lobby "''s2''" "Str ''lobby''" "Str ''p2''"] h a m
  show ?thesis by blast
qed

text \<open>The second join of the spec's scenario.\<close>

lemma scenario_second_join:
  "delivered [Connection ''s1'', JoinRoom ''s1'' (Str ''lobby'') (Str ''p1''), Connection ''s2'']
     (JoinRoom ''s2'' (Str ''lobby'') (Str ''p2''))
   = Inr [({''s1''}, UserConnected (Str ''p2'')), ({''s2''}, RoomUsers [Str ''p1'', Str ''p2''])]"
  by (simp add: eval_defs)

section \<open>Server: the registry against the set of joins and leaves\<close>

text \<open>
  Claim C5. After any sequence of join-room and leave-room events (on any rooms, from
  any sockets) no handler has thrown, and the registry's members of a room \<open>r\<close> are
  exactly the participants joined to \<open>r\<close> and not left since. In the state reached, a
  join by a participant already in \<open>r\<close> and a leave by a participant not in \<open>r\<close> (or
  naming a room that is absent) leave the whole registry as it is.
\<close>

theorem registry_is_joined_minus_left:
  assumes "list_all is_join_leave evs"
  shows "\<exists>s. run server0 evs = Inr s \<and>
           set (membersOf (activeRooms s) r) = joined_not_left r evs \<and>
           (u \<in> set (membersOf (activeRooms s) r) \<longrightarrow>
              activeRooms (on_join_room s sock r u) = activeRooms s) \<and>
           (u \<notin> set (membersOf (activeRooms s) r) \<longrightarrow>
              activeRooms (on_leave_room s sock r u) = activeRooms s)"
proof -
  from run_spec [OF assms, of server0 r] obtain s where s: "run server0 evs = Inr s"
    "set (membersOf (activeRooms s) r) = foldl (spec_step r) (set (membersOf (activeRooms server0) r)) evs"
    by auto
  have ok: "rooms_ok (activeRooms s)"
    using rooms_ok_run [of server0 evs s] s(1) by (simp add: rooms_ok_def server0_def)
  have "membersOf (activeRooms server0) r = []"
    by (simp add: server0_def membersOf_def map_get_def)
  with s ok show ?thesis
    by (auto simp: joined_not_left_def join_present_unchanged leave_absent_unchanged)
qed

theorem registry_is_joined_minus_left_witness:
  "list_all is_join_leave
     [JoinRoom ''s1'' (Str ''lobby'') (Str ''p1''), JoinRoom ''s2'' (Str ''lobby'') (Str ''p2''),
      JoinRoom ''s1'' (Str ''lobby'') (Str ''p1''), LeaveRoom ''s1'' (Str ''lobby'') (Str ''p1''),
      LeaveRoom ''s1'' (Str ''attic'') (Str ''p9'')] \<and>
   joined_not_left (Str ''lobby'')
     [JoinRoom ''s1'' (Str ''lobby'') (Str ''p1''), JoinRoom ''s2'' (Str ''lobby'') (Str ''p2''),
      JoinRoom ''s1'' (Str ''lobby'') (Str ''p1''), LeaveRoom ''s1'' (Str ''lobby'') (Str ''p1''),
      LeaveRoom ''s1'' (Str ''attic'') (Str ''p9'')] = {Str ''p2''} \<and>
   (\<exists>s. run server0
     [JoinRoom ''s1'' (Str ''lobby'') (Str ''p1''), JoinRoom ''s2'' (Str ''lobby'') (Str ''p2''),
      JoinRoom ''s1'' (Str ''lobby'') (Str ''p1''), LeaveRoom ''s1'' (Str ''lobby'') (Str ''p1''),
      LeaveRoom ''s1'' (Str ''attic'') (Str ''p9'')] = Inr s \<and>
      set (membersOf (activeRooms s) (Str ''lobby'')) = {Str ''p2''})"
proof -
  let ?evs = "[JoinRoom ''s1'' (Str ''lobby'') (Str ''p1''), JoinRoom ''s2'' (Str ''lobby'') (Str ''p2''),
      JoinRoom ''s1'' (Str ''lobby'') (Str ''p1''), LeaveRoom ''s1'' (Str ''lobby'') (Str ''p1''),
      LeaveRoom ''s1'' (Str ''attic'') (Str ''p9'')]"
  have h: "list_all is_join_leave ?evs" by simp
  have j: "joined_not_left (Str ''lobby'') ?evs = {Str ''p2''}"
    by (auto simp: joined_not_left_def)
  from registry_is_joined_minus_left [OF h, of "Str ''lobby''"] j h show ?thesis
    by metis
qed

section \<open>Server: a join without a room identifier\<close>

text \<open>
  Claim C7, as the spec states it: a join-room with a missing room identifier changes
  nothing in the registry and emits nothing. A client sends \<open>join-room\<close> with a missing
  room and the participant \<open>u1\<close> (the room reads as \<open>null\<close>), or with no argument at
  all (room and participant read as \<open>undefined\<close>). On the code the registry gets an
  entry under the key \<open>null\<close> or \<open>undefined\<close>, and the joiner is sent a \<open>room-users\<close>
  message.
\<close>

theorem join_missing_room_counterexample:
  "registry_after [Connection ''s1'', JoinRoom ''s1'' Null (Str ''u1'')]
     = Inr [(Null, [Str ''u1''])] \<and>
   registry_after [Connection ''s1'', JoinRoom ''s1'' Null (Str ''u1'')]
     \<noteq> registry_after [Connection ''s1''] \<and>
   delivered [Connection ''s1''] (JoinRoom ''s1'' Null (Str ''u1''))
     = Inr [({}, UserConnected (Str ''u1'')), ({''s1''}, RoomUsers [Str ''u1''])] \<and>
   delivered [Connection ''s1''] (JoinRoom ''s1'' Null (Str ''u1'')) \<noteq> Inr [] \<and>
   registry_after [Connection ''s1'', JoinRoom ''s1'' Undefined Undefined]
     = Inr [(Undefined, [Undefined])] \<and>
   delivered [Connection ''s1''] (JoinRoom ''s1'' Undefined Undefined)
     = Inr [({}, UserConnected Undefined), ({''s1''}, RoomUsers [Undefined])]"
  by (simp add: eval_defs)

text \<open>
  Claim C7, amended. A join-room whose room identifier is missing is handled as any
  other join, with \<open>null\<close> or \<open>undefined\<close> as the room: the participant is added to the
  members the registry holds under that key (the entry is created when absent),
  \<open>user-connected\<close> goes to the sockets joined under that key except those joined to
  the room named by the joiner's socket id, and \<open>room-users\<close>, with the participant in
  it, goes to the joiner.
\<close>

theorem join_missing_room_is_processed:
  "activeRooms (on_join_room s sock Null u) =
     map_set (activeRooms s) Null (set_add (membersOf (activeRooms s) Null) u) \<and>
   map_get (activeRooms (on_join_room s sock Null u)) Null
     = Some (set_add (membersOf (activeRooms s) Null) u) \<and>
   sent (on_join_room s sock Null u) =
     sent s @ [(insert sock (adapter s Null) - adapter s (Str sock), UserConnected u),
               ({sock}, RoomUsers (set_add (membersOf (activeRooms s) Null) u))] \<and>
   set (set_add (membersOf (activeRooms s) Null) u)
     = insert u (set (membersOf (activeRooms s) Null)) \<and>
   activeRooms (on_join_room s sock Undefined u) =
     map_set (activeRooms s) Undefined (set_add (membersOf (activeRooms s) Undefined) u) \<and>
   map_get (activeRooms (on_join_room s sock Undefined u)) Undefined
     = Some (set_add (membersOf (activeRooms s) Undefined) u) \<and>
   sent (on_join_room s sock Undefined u) =
     sent s @ [(insert sock (adapter s Undefined) - adapter s (Str sock), UserConnected u),
               ({sock}, RoomUsers (set_add (membersOf (activeRooms s) Undefined) u))] \<and>
   set (set_add (membersOf (activeRooms s) Undefined) u)
     = insert u (set (membersOf (activeRooms s) Undefined))"
  by (simp add: join_registry join_sent set_set_add map_get_def map_of_map_set)

section \<open>Evaluating the client\<close>

lemmas client_eval = on_user_connected_def on_room_users_def createPeerConnection_def
  createOffer_def joinRoom_def getMicrophoneAccess_def client0_def emit_def updateStatus_def
  showError_def truthy_def trim_def is_space_def

section \<open>Client: peer links\<close>

text \<open>
  Claim C6 at a concrete input. A client has joined \<open>lobby\<close> as \<open>user-a\<close> and receives
  \<open>user-connected(user-b)\<close>; the WebRTC stack produces the offer \<open>sdp\<close>. Handling the
  notification emits an offer addressed to \<open>user-b\<close>: the claim says it emits none.
\<close>

theorem user_connected_emits_offer:
  "emitted (on_user_connected (\<lambda>n. Some (Str ''sdp''))
      (joinRoom ''lobby'' ''ann'' (Some [True]) (client0 ''user-a'')) (Str ''user-b''))
   = [EmitJoinRoom ''lobby'' ''user-a'', EmitOffer (Some ''lobby'') (Str ''sdp'') (Str ''user-b'')]"
  by (simp add: on_user_connected_def createPeerConnection_def createOffer_def joinRoom_def
      getMicrophoneAccess_def client0_def emit_def updateStatus_def showError_def truthy_def
      trim_def is_space_def Let_def)

text \<open>
  Claim C10. When a Peer Link exists for a participant id, \<open>createPeerConnection\<close>
  returns that connection and leaves the whole client state as it is: no connection is
  constructed, no link is added, nothing is emitted. An offer then received from that
  participant is handled on the same connection: none is constructed, the links are the
  same, and no negotiation offer is emitted.
\<close>

theorem createPeerConnection_existing:
  assumes "peerConnections c (to_key uid) = Some pc"
  shows "createPeerConnection rtc c uid = (pc, c) \<and>
         created (handleOffer rtc outcome c offer uid) = created c \<and>
         dom (peerConnections (handleOffer rtc outcome c offer uid)) = dom (peerConnections c) \<and>
         map_option pc_id (peerConnections (handleOffer rtc outcome c offer uid) (to_key uid))
           = Some (pc_id pc) \<and>
         filter is_offer (emitted (handleOffer rtc outcome c offer uid))
           = filter is_offer (emitted c)"
  using assms
  by (cases outcome) (auto simp: createPeerConnection_def handleOffer_def emit_def)

theorem createPeerConnection_existing_witness:
  "peerConnections
     (on_room_users (\<lambda>n. Some (Str ''sdp''))
        (joinRoom ''lobby'' ''ann'' (Some [True]) (client0 ''user-a''))
        [Str ''user-a'', Str ''user-b''])
     (to_key (Str ''user-b''))
     = Some \<lparr>pc_id = 0, pc_tracks = 1, pc_local = Some (Str ''sdp''), pc_remote = None\<rparr> \<and>
   created (handleOffer (\<lambda>n. Some (Str ''sdp'')) (Answered (Str ''ans''))
     (on_room_users (\<lambda>n. Some (Str ''sdp''))
        (joinRoom ''lobby'' ''ann'' (Some [True]) (client0 ''user-a''))
        [Str ''user-a'', Str ''user-b''])
     (Str ''remote-sdp'') (Str ''user-b'')) = 1 \<and>
   filter is_offer (emitted (handleOffer (\<lambda>n. Some (Str ''sdp'')) (Answered (Str ''ans''))
     (on_room_users (\<lambda>n. Some (Str ''sdp''))
        (joinRoom ''lobby'' ''ann'' (Some [True]) (client0 ''user-a''))
        [Str ''user-a'', Str ''user-b''])
     (Str ''remote-sdp'') (Str ''user-b'')))
     = [EmitOffer (Some ''lobby'') (Str ''sdp'') (Str ''user-b'')]"
proof -
  let ?c = "on_room_users (\<lambda>n. Some (Str ''sdp''))
        (joinRoom ''lobby'' ''ann'' (Some [True]) (client0 ''user-a''))
        [Str ''user-a'', Str ''user-b'']"
  have h: "peerConnections ?c (to_key (Str ''user-b''))
     = Some \<lparr>pc_id = 0, pc_tracks = 1, pc_local = Some (Str ''sdp''), pc_remote = None\<rparr>"
    by (simp add: client_eval)
  have c: "created ?c = 1"
    by (simp add: client_eval)
  have e: "filter is_offer (emitted ?c) = [EmitOffer (Some ''lobby'') (Str ''sdp'') (Str ''user-b'')]"
    by (simp add: client_eval)
  from createPeerConnection_existing [OF h, of "\<lambda>n. Some (Str ''sdp'')" "Answered (Str ''ans'')"
      "Str ''remote-sdp''"] h c e
  show ?thesis by simp
qed

section \<open>Client: joining and talking\<close>

text \<open>
  Claim C8. When \<open>getUserMedia\<close> rejects, \<open>joinRoom\<close> emits nothing on the socket (no
  \<open>join-room\<close>), shows one error message, and neither the local stream nor the status
  line changes. With an empty room name the error is the request for a room name, shown
  before the microphone is asked for.
\<close>

theorem mic_failure_aborts_join:
  "emitted (joinRoom roomInput usernameInput None c) = emitted c \<and>
   errors (joinRoom roomInput usernameInput None c) =
     errors c @ [if trim roomInput = [] then ''Please enter a room name''
                 else ''Failed to join room: Microphone access denied. Please allow microphone permissions.''] \<and>
   localStream (joinRoom roomInput usernameInput None c) = localStream c \<and>
   status (joinRoom roomInput usernameInput None c) = status c"
  by (simp add: joinRoom_def getMicrophoneAccess_def showError_def truthy_def Let_def)

text \<open>
  Claim C9. With no active room (\<open>roomId\<close> is \<open>null\<close> or empty), \<open>startTalking\<close>
  emits nothing, and \<open>stopTalking\<close> after it emits nothing either.
\<close>

theorem talking_without_room_is_local:
  assumes "\<not> truthy (roomId c)"
  shows "emitted (startTalking c) = emitted c \<and>
         emitted (stopTalking (startTalking c)) = emitted c"
  using assms by (simp add: startTalking_def stopTalking_def Let_def split: option.splits)

theorem talking_without_room_is_local_witness:
  "\<not> truthy (roomId (joinRoom [] [] None
       (joinRoom ''lobby'' ''ann'' (Some [True]) (client0 ''user-a'')))) \<and>
   localStream (startTalking (joinRoom [] [] None
       (joinRoom ''lobby'' ''ann'' (Some [True]) (client0 ''user-a'')))) = Some [True] \<and>
   emitted (startTalking (joinRoom [] [] None
       (joinRoom ''lobby'' ''ann'' (Some [True]) (client0 ''user-a''))))
     = [EmitJoinRoom ''lobby'' ''user-a''] \<and>
   emitted (stopTalking (startTalking (joinRoom [] [] None
       (joinRoom ''lobby'' ''ann'' (Some [True]) (client0 ''user-a'')))))
     = [EmitJoinRoom ''lobby'' ''user-a'']"
proof -
  let ?c = "joinRoom [] [] None (joinRoom ''lobby'' ''ann'' (Some [True]) (client0 ''user-a''))"
  have h: "\<not> truthy (roomId ?c)"
    by (simp add: client_eval)
  have l: "localStream (startTalking ?c) = Some [True]"
    by (simp add: client_eval startTalking_def)
  have e: "emitted ?c = [EmitJoinRoom ''lobby'' ''user-a'']"
    by (simp add: client_eval)
  from talking_without_room_is_local [OF h] h l e show ?thesis by simp
qed

end
